theory Spec2Isabelle
  imports Main "HOL-Library.Word" "HOL-Library.Multiset"
begin

section \<open>Library functions the codec calls\<close>

text \<open>
  The codec is written against Go's standard library (\<open>strconv\<close>, \<open>encoding/base64\<close>,
  \<open>time\<close>, \<open>reflect\<close>) and the \<open>etree\<close> XML tree. This section states the behaviour
  of the library calls that \<open>client.go\<close>, \<open>result.go\<close> and the value builders make, so
  that the repository's own functions can be written on top of them call by call.
  Integers are those of a 64-bit platform (\<open>int\<close> is 64 bits wide).
\<close>

subsection \<open>strconv: integers and booleans\<close>

type_synonym int64 = "64 word"
type_synonym byte = "8 word"

text \<open>A \<open>float64\<close> is kept as its IEEE-754 bit pattern; the zero value is \<open>+0.0\<close>.\<close>
type_synonym float64 = "64 word"

definition isDigit :: "char \<Rightarrow> bool" where
  "isDigit c = ((48::nat) \<le> of_char c \<and> of_char c \<le> (57::nat))"

definition digitChar :: "nat \<Rightarrow> char" where
  "digitChar d = char_of (48 + d)"

definition digitVal :: "char \<Rightarrow> nat" where
  "digitVal c = of_char c - (48::nat)"

fun digitsOf :: "nat \<Rightarrow> string" where
  "digitsOf n = (if n < 10 then [digitChar n] else digitsOf (n div 10) @ [digitChar (n mod 10)])"

declare digitsOf.simps [simp del]

definition digitsVal :: "string \<Rightarrow> nat" where
  "digitsVal ds = foldl (\<lambda>a c. a * 10 + digitVal c) 0 ds"

text \<open>\<open>strconv.FormatInt(i, 10)\<close>: a minus sign for a negative number, then the decimal digits.\<close>
definition FormatInt :: "int \<Rightarrow> string" where
  "FormatInt i = (if i < 0 then CHR ''-'' # digitsOf (nat (- i)) else digitsOf (nat i))"

text \<open>
  \<open>strconv.Atoi\<close>: an optional sign, then one or more decimal digits and nothing else; the
  value has to fit the 64-bit \<open>int\<close>. \<open>None\<close> stands for the returned \<open>*NumError\<close>
  (syntax or range).
\<close>
definition Atoi :: "string \<Rightarrow> int option" where
  "Atoi s =
     (case s of
        [] \<Rightarrow> None
      | c # r \<Rightarrow>
          (let neg = (c = CHR ''-'');
               ds = (if c = CHR ''-'' \<or> c = CHR ''+'' then r else s)
           in if ds = [] \<or> \<not> list_all isDigit ds then None
              else if neg then (if digitsVal ds > 2 ^ 63 then None else Some (- int (digitsVal ds)))
              else (if digitsVal ds \<ge> 2 ^ 63 then None else Some (int (digitsVal ds)))))"

text \<open>\<open>strconv.ParseBool\<close> accepts exactly these twelve spellings.\<close>
definition ParseBool :: "string \<Rightarrow> bool option" where
  "ParseBool s =
     (if s \<in> set [''1'', ''t'', ''T'', ''TRUE'', ''true'', ''True''] then Some True
      else if s \<in> set [''0'', ''f'', ''F'', ''FALSE'', ''false'', ''False''] then Some False
      else None)"

subsection \<open>encoding/base64: the standard padded encoding\<close>

definition base64Alphabet :: string where
  "base64Alphabet = ''ABCDEFGHIJKLMNOPQRSTUVWXYZabcdefghijklmnopqrstuvwxyz0123456789+/''"

definition enc6 :: "nat \<Rightarrow> char" where
  "enc6 n = base64Alphabet ! (n mod 64)"

fun indexOf :: "'a \<Rightarrow> 'a list \<Rightarrow> nat option" where
  "indexOf x [] = None"
| "indexOf x (y # ys) = (if x = y then Some 0 else map_option Suc (indexOf x ys))"

definition dec6 :: "char \<Rightarrow> nat option" where
  "dec6 c = indexOf c base64Alphabet"

text \<open>
  \<open>base64.StdEncoding.EncodeToString\<close>: three bytes make a 24-bit group written as four
  characters; a rest of one or two bytes is written with \<open>==\<close> or \<open>=\<close> as padding.
\<close>
fun EncodeToString :: "byte list \<Rightarrow> string" where
  "EncodeToString [] = []"
| "EncodeToString [a] =
     (let n = unat a * 65536
      in [enc6 (n div 262144), enc6 (n div 4096), CHR ''='', CHR ''=''])"
| "EncodeToString [a, b] =
     (let n = unat a * 65536 + unat b * 256
      in [enc6 (n div 262144), enc6 (n div 4096), enc6 (n div 64), CHR ''=''])"
| "EncodeToString (a # b # c # r) =
     (let n = unat a * 65536 + unat b * 256 + unat c
      in [enc6 (n div 262144), enc6 (n div 4096), enc6 (n div 64), enc6 n] @ EncodeToString r)"

text \<open>
  \<open>base64.StdEncoding.DecodeString\<close>: carriage returns and line feeds are skipped; the rest
  is read four characters at a time; padding is only allowed to close the last group, and
  the unused low bits of a padded group are not checked. \<open>None\<close> stands for the returned
  \<open>CorruptInputError\<close>.
\<close>
definition group24 :: "nat \<Rightarrow> nat \<Rightarrow> nat \<Rightarrow> nat \<Rightarrow> nat" where
  "group24 a b c d = ((a * 64 + b) * 64 + c) * 64 + d"

definition byte0 :: "nat \<Rightarrow> byte" where "byte0 n = of_nat (n div 65536)"
definition byte1 :: "nat \<Rightarrow> byte" where "byte1 n = of_nat (n div 256 mod 256)"
definition byte2 :: "nat \<Rightarrow> byte" where "byte2 n = of_nat (n mod 256)"

definition decodeLast :: "char \<Rightarrow> char \<Rightarrow> char \<Rightarrow> char \<Rightarrow> byte list option" where
  "decodeLast c0 c1 c2 c3 =
     (case (dec6 c0, dec6 c1) of
        (Some a, Some b) \<Rightarrow>
          (if c2 = CHR ''='' then
             (if c3 = CHR ''='' then Some [byte0 (group24 a b 0 0)] else None)
           else
             (case dec6 c2 of
                None \<Rightarrow> None
              | Some c \<Rightarrow>
                  (if c3 = CHR ''='' then Some [byte0 (group24 a b c 0), byte1 (group24 a b c 0)]
                   else
                     (case dec6 c3 of
                        None \<Rightarrow> None
                      | Some d \<Rightarrow>
                          Some [byte0 (group24 a b c d), byte1 (group24 a b c d),
                                byte2 (group24 a b c d)]))))
      | _ \<Rightarrow> None)"

fun decodeQuanta :: "string \<Rightarrow> byte list option" where
  "decodeQuanta [] = Some []"
| "decodeQuanta [c0, c1, c2, c3] = decodeLast c0 c1 c2 c3"
| "decodeQuanta (c0 # c1 # c2 # c3 # r) =
     (case (dec6 c0, dec6 c1, dec6 c2, dec6 c3) of
        (Some a, Some b, Some c, Some d) \<Rightarrow>
          (case decodeQuanta r of
             None \<Rightarrow> None
           | Some bs \<Rightarrow>
               Some (byte0 (group24 a b c d) # byte1 (group24 a b c d) #
                     byte2 (group24 a b c d) # bs))
      | _ \<Rightarrow> None)"
| "decodeQuanta _ = None"

definition DecodeString :: "string \<Rightarrow> byte list option" where
  "DecodeString s = decodeQuanta (filter (\<lambda>c. c \<noteq> CHR 0x0D \<and> c \<noteq> CHR 0x0A) s)"

subsection \<open>time: instants, the request layout and the RFC 3339 layout\<close>

text \<open>
  A \<open>time.Time\<close> is an instant with a location. The instant is kept as the seconds since
  January 1 of year 1, 00:00:00 UTC, with the nanoseconds within the second; the location
  is kept as its offset east of UTC in seconds. The zero value \<open>time.Time{}\<close> is
  January 1 of year 1, 00:00:00 UTC.
\<close>
record Time =
  sec :: int
  nsec :: nat
  zoneOffset :: int

definition zeroTime :: Time where
  "zeroTime = \<lparr>sec = 0, nsec = 0, zoneOffset = 0\<rparr>"

definition UTC :: "Time \<Rightarrow> Time" where
  "UTC t = t\<lparr>zoneOffset := 0\<rparr>"

definition isLeap :: "int \<Rightarrow> bool" where
  "isLeap y = (y mod 4 = 0 \<and> (y mod 100 \<noteq> 0 \<or> y mod 400 = 0))"

definition daysIn :: "nat \<Rightarrow> int \<Rightarrow> nat" where
  "daysIn m y =
     (if m = 2 then (if isLeap y then 29 else 28)
      else if m = 4 \<or> m = 6 \<or> m = 9 \<or> m = 11 then 30 else 31)"

text \<open>Days from January 1 of year 1 to the given civil date.\<close>
definition daysBefore :: "nat \<Rightarrow> int \<Rightarrow> nat" where
  "daysBefore m y = sum_list (map (\<lambda>k. daysIn k y) [1..<m])"

definition daysSinceEpoch :: "int \<Rightarrow> nat \<Rightarrow> nat \<Rightarrow> int" where
  "daysSinceEpoch y m d =
     365 * (y - 1) + (y - 1) div 4 - (y - 1) div 100 + (y - 1) div 400
       + int (daysBefore m y) + int d - 1"

text \<open>\<open>time.Date\<close> in UTC, for fields that are in range.\<close>
definition Date :: "int \<Rightarrow> nat \<Rightarrow> nat \<Rightarrow> nat \<Rightarrow> nat \<Rightarrow> nat \<Rightarrow> nat \<Rightarrow> Time" where
  "Date y m d hh mm ss ns =
     \<lparr>sec = daysSinceEpoch y m d * 86400 + int hh * 3600 + int mm * 60 + int ss,
      nsec = ns, zoneOffset = 0\<rparr>"

text \<open>
  The civil date of a day count: 400-year, 100-year and 4-year cycles are cut off in turn,
  the last cycle of each kind being one day longer.
\<close>
definition yearOfDays :: "int \<Rightarrow> int \<times> nat" where
  "yearOfDays d =
     (let n400 = d div 146097; d1 = d mod 146097;
          n100 = min 3 (d1 div 36524); d2 = d1 - 36524 * n100;
          n4 = d2 div 1461; d3 = d2 mod 1461;
          n1 = min 3 (d3 div 365); yday = d3 - 365 * n1
      in (400 * n400 + 100 * n100 + 4 * n4 + n1 + 1, nat yday))"

fun monthOfYday :: "int \<Rightarrow> nat \<Rightarrow> nat \<Rightarrow> nat \<Rightarrow> nat \<times> nat" where
  "monthOfYday y m yday 0 = (m, yday + 1)"
| "monthOfYday y m yday (Suc k) =
     (if yday < daysIn m y then (m, yday + 1) else monthOfYday y (m + 1) (yday - daysIn m y) k)"

record Civil =
  cYear :: int
  cMonth :: nat
  cDay :: nat
  cHour :: nat
  cMinute :: nat
  cSecond :: nat

definition civilOf :: "Time \<Rightarrow> Civil" where
  "civilOf t =
     (let s = sec t + zoneOffset t;
          (y, yday) = yearOfDays (s div 86400);
          (m, d) = monthOfYday y 1 yday 11;
          r = nat (s mod 86400)
      in \<lparr>cYear = y, cMonth = m, cDay = d,
          cHour = r div 3600, cMinute = r div 60 mod 60, cSecond = r mod 60\<rparr>)"

text \<open>\<open>appendInt(b, x, width)\<close>: decimal digits, padded with zeros to the width.\<close>
definition padInt :: "nat \<Rightarrow> nat \<Rightarrow> string" where
  "padInt x width = replicate (width - length (digitsOf x)) (CHR ''0'') @ digitsOf x"

definition appendInt :: "int \<Rightarrow> nat \<Rightarrow> string" where
  "appendInt x width = (if x < 0 then CHR ''-'' # padInt (nat (- x)) width else padInt (nat x) width)"

text \<open>
  \<open>t.Format("2006-01-02T15:04:05-0700")\<close>: year, month, day, hour, minute and second of the
  time in its location, then the sign, hours and minutes of the offset with no colon.
\<close>
definition formatZone :: "int \<Rightarrow> string" where
  "formatZone off =
     (let z = off div 60 \<comment> \<open>minutes\<close>;
          a = nat \<bar>z\<bar>
      in (if z < 0 then CHR ''-'' else CHR ''+'') # padInt (a div 60) 2 @ padInt (a mod 60) 2)"

definition Format :: "Time \<Rightarrow> string" where
  "Format t =
     (let c = civilOf t
      in appendInt (cYear c) 4 @ ''-'' @ padInt (cMonth c) 2 @ ''-'' @ padInt (cDay c) 2 @ ''T''
         @ padInt (cHour c) 2 @ '':'' @ padInt (cMinute c) 2 @ '':'' @ padInt (cSecond c) 2
         @ formatZone (zoneOffset t))"

text \<open>
  \<open>time.Parse(time.RFC3339, s)\<close>, the layout being \<open>2006-01-02T15:04:05Z07:00\<close>. The
  value is read left to right, one layout element at a time; \<open>None\<close> stands for the
  returned \<open>*ParseError\<close>.
\<close>
definition getnum :: "string \<Rightarrow> bool \<Rightarrow> (nat \<times> string) option" where
  "getnum s fixed =
     (case s of
        [] \<Rightarrow> None
      | c0 # r \<Rightarrow>
          (if \<not> isDigit c0 then None
           else
             (case r of
                [] \<Rightarrow> (if fixed then None else Some (digitVal c0, r))
              | c1 # r' \<Rightarrow>
                  (if isDigit c1 then Some (digitVal c0 * 10 + digitVal c1, r')
                   else if fixed then None
                   else Some (digitVal c0, r)))))"

definition skipChar :: "char \<Rightarrow> string \<Rightarrow> string option" where
  "skipChar c s = (case s of [] \<Rightarrow> None | x # r \<Rightarrow> (if x = c then Some r else None))"

definition getYear :: "string \<Rightarrow> (nat \<times> string) option" where
  "getYear s =
     (if length s < 4 \<or> \<not> list_all isDigit (take 4 s) then None
      else Some (digitsVal (take 4 s), drop 4 s))"

definition inRange :: "bool \<Rightarrow> unit option" where
  "inRange b = (if b then Some () else None)"

text \<open>
  A fraction of a second in the value is read even though the layout has none: a period
  or comma and at least one digit; the first nine digits count.
\<close>
definition getFraction :: "string \<Rightarrow> nat \<times> string" where
  "getFraction s =
     (case s of
        c # d # r \<Rightarrow>
          (if (c = CHR ''.'' \<or> c = CHR '','') \<and> isDigit d then
             (let ds = take 9 (takeWhile isDigit (d # r))
              in (digitsVal ds * 10 ^ (9 - length ds), dropWhile isDigit (d # r)))
           else (0, s))
      | _ \<Rightarrow> (0, s))"

text \<open>
  The zone element \<open>Z07:00\<close>: a \<open>Z\<close>, or a sign, two digits, a colon and two digits.
  The result is the offset in seconds.
\<close>
definition getZone :: "string \<Rightarrow> (int \<times> string) option" where
  "getZone s =
     (if s \<noteq> [] \<and> hd s = CHR ''Z'' then Some (0, tl s)
      else if length s < 6 then None
      else if s ! 3 \<noteq> CHR '':'' then None
      else
        (case (getnum [s ! 1, s ! 2] True, getnum [s ! 4, s ! 5] True) of
           (Some (hr, _), Some (mm, _)) \<Rightarrow>
             (if hr > 24 \<or> mm > 60 then None
              else if s ! 0 = CHR ''+'' then Some (int ((hr * 60 + mm) * 60), drop 6 s)
              else if s ! 0 = CHR ''-'' then Some (- int ((hr * 60 + mm) * 60), drop 6 s)
              else None)
         | _ \<Rightarrow> None))"

definition ParseRFC3339 :: "string \<Rightarrow> Time option" where
  "ParseRFC3339 s0 =
     Option.bind (getYear s0) (\<lambda>(year, s1).
     Option.bind (skipChar (CHR ''-'') s1) (\<lambda>s2.
     Option.bind (getnum s2 True) (\<lambda>(month, s3).
     Option.bind (inRange (1 \<le> month \<and> month \<le> 12)) (\<lambda>_.
     Option.bind (skipChar (CHR ''-'') s3) (\<lambda>s4.
     Option.bind (getnum s4 True) (\<lambda>(day, s5).
     Option.bind (skipChar (CHR ''T'') s5) (\<lambda>s6.
     Option.bind (getnum s6 False) (\<lambda>(hour, s7).
     Option.bind (inRange (hour < 24)) (\<lambda>_.
     Option.bind (skipChar (CHR '':'') s7) (\<lambda>s8.
     Option.bind (getnum s8 True) (\<lambda>(minute, s9).
     Option.bind (inRange (minute < 60)) (\<lambda>_.
     Option.bind (skipChar (CHR '':'') s9) (\<lambda>s10.
     Option.bind (getnum s10 True) (\<lambda>(second, s11).
     Option.bind (inRange (second < 60)) (\<lambda>_.
     (case getFraction s11 of (ns, s12) \<Rightarrow>
     Option.bind (getZone s12) (\<lambda>(off, s13).
     Option.bind (inRange (s13 = [])) (\<lambda>_.
     Option.bind (inRange (1 \<le> day \<and> day \<le> daysIn month (int year))) (\<lambda>_.
       (let t = Date (int year) month day hour minute second ns
        in Some (t\<lparr>sec := sec t - off, zoneOffset := off\<rparr>)))))))))))))))))))))"

section \<open>The XML element tree\<close>

text \<open>
  An \<open>etree\<close> element as the codec sees it: its tag, the text that follows its opening tag
  (\<open>Text()\<close>, \<open>SetText\<close>) and its child elements in document order (\<open>ChildElements()\<close>,
  \<open>AddChild\<close>). A document is the element that holds the root elements as its children.
  Tokens that are not elements (the processing instruction, comments) are not kept: no
  path query and no \<open>ChildElements()\<close> call sees them.
\<close>
datatype element = Element (Tag: string) (Text: string) (ChildElements: "element list")

definition NewElement :: "string \<Rightarrow> element" where
  "NewElement tag = Element tag [] []"

definition SetText :: "string \<Rightarrow> element \<Rightarrow> element" where
  "SetText t e = Element (Tag e) t (ChildElements e)"

definition AddChild :: "element \<Rightarrow> element \<Rightarrow> element" where
  "AddChild c e = Element (Tag e) (Text e) (ChildElements e @ [c])"

text \<open>
  A path such as \<open>data/value\<close> is a list of tags separated by slashes; each tag selects the
  children with that tag of every element selected so far, in document order.
\<close>
fun splitPath :: "string \<Rightarrow> string list" where
  "splitPath [] = [[]]"
| "splitPath (c # cs) =
     (if c = CHR ''/'' then [] # splitPath cs
      else (case splitPath cs of [] \<Rightarrow> [[c]] | seg # segs \<Rightarrow> (c # seg) # segs))"

definition selectChildren :: "string \<Rightarrow> element \<Rightarrow> element list" where
  "selectChildren tag e = filter (\<lambda>c. Tag c = tag) (ChildElements e)"

fun findPath :: "string list \<Rightarrow> element list \<Rightarrow> element list" where
  "findPath [] cands = cands"
| "findPath (seg # segs) cands = findPath segs (concat (map (selectChildren seg) cands))"

definition FindElements :: "string \<Rightarrow> element \<Rightarrow> element list" where
  "FindElements path e = findPath (splitPath path) [e]"

definition FindElement :: "string \<Rightarrow> element \<Rightarrow> element option" where
  "FindElement path e = (case FindElements path e of [] \<Rightarrow> None | x # _ \<Rightarrow> Some x)"

section \<open>Errors\<close>

text \<open>
  \<open>reflect.Kind\<close>, as far as the converter can meet it: \<open>KInvalid\<close> is the kind of
  \<open>reflect.ValueOf(nil)\<close>.
\<close>
datatype kind =
    KInvalid | KBool | KInt | KInt8 | KInt16 | KInt32 | KInt64
  | KUint | KUint8 | KUint16 | KUint32 | KUint64 | KUintptr
  | KFloat32 | KFloat64 | KComplex64 | KComplex128
  | KArray | KChan | KFunc | KInterface | KMap | KPtr | KSlice | KString | KStruct
  | KUnsafePointer

text \<open>
  Every error the package creates, one constructor for each message; \<open>Wrap\<close> is
  \<open>errors.Wrap(err, msg)\<close>, which keeps the cause. A panic is kept as a value of its own: it
  leaves every caller at once and no caller of the package wraps or recovers it.
\<close>
datatype error =
    Panic string
  | InvalidType kind                    \<comment> \<open>\<open>invalid type %s\<close>\<close>
  | Wrap string error
  | UnrecognizedResponse                \<comment> \<open>\<open>failed to recognize XML RPC response\<close>\<close>
  | UnrecognizedFault                   \<comment> \<open>\<open>failed to recognize XML RPC fault\<close>\<close>
  | RemoteFault string string           \<comment> \<open>\<open>XML RPC error: %s: %s\<close>\<close>
  | MalformedValue                      \<comment> \<open>\<open>'value' tag doesn't contain exactly one child tag\<close>\<close>
  | UnrecognizedTag string              \<comment> \<open>\<open>cannot recognize tag '%s'\<close>\<close>
  | IntegerConversionFailed string      \<comment> \<open>\<open>cannot convert '%s' to integer\<close>\<close>
  | BooleanConversionFailed string      \<comment> \<open>\<open>cannot convert '%s' to boolean\<close>\<close>
  | DoubleConversionFailed string       \<comment> \<open>\<open>cannot convert '%s' to floating point number\<close>\<close>
  | DateTimeConversionFailed string     \<comment> \<open>\<open>cannot convert '%s' to a date\<close>\<close>
  | Base64ConversionFailed string       \<comment> \<open>\<open>cannot decode '%s' as base64\<close>\<close>
  | EmptyArrayNotAllowed                \<comment> \<open>\<open>no values found in array\<close>\<close>
  | EmptyStructNotAllowed               \<comment> \<open>\<open>no members found in struct\<close>\<close>
  | MissingMemberName                   \<comment> \<open>\<open>no 'name' tag found for struct member\<close>\<close>
  | MissingMemberValue                  \<comment> \<open>\<open>no 'value' tag found for struct member\<close>\<close>
  | DuplicateMemberName string          \<comment> \<open>\<open>struct member '%s' found multiple times\<close>\<close>

section \<open>result.go: decoding a response\<close>

datatype Kind =
    KindInvalid | KindArray | KindBase64 | KindBool | KindDateTime | KindDouble | KindInt
  | KindString | KindStruct

definition methodResponseValuePath :: string where
  "methodResponseValuePath = ''methodResponse/params/param/value''"
definition methodResponseFaultPath :: string where
  "methodResponseFaultPath = ''methodResponse/fault''"
definition arrayValuePath :: string where "arrayValuePath = ''data/value''"
definition faultMembersPath :: string where "faultMembersPath = ''value/struct/member''"
definition faultCodeName :: string where "faultCodeName = ''faultCode''"
definition faultStringName :: string where "faultStringName = ''faultString''"
definition faultMemberNameTag :: string where "faultMemberNameTag = ''name''"
definition faultMemberValueIntPath :: string where "faultMemberValueIntPath = ''value/int''"
definition faultMemberValueI4Path :: string where "faultMemberValueI4Path = ''value/i4''"
definition faultMemberValueStringPath :: string where
  "faultMemberValueStringPath = ''value/string''"
definition structMemberPath :: string where "structMemberPath = ''member''"
definition structMemberNameTag :: string where "structMemberNameTag = ''name''"
definition structMemberValueTag :: string where "structMemberValueTag = ''value''"

text \<open>
  The struct \<open>Result\<close>, field by field. A nil slice is the empty list and a nil map the
  empty map; the pointers \<open>*Result\<close> held by a slice or map are never nil, so the pointed-to
  values are held directly.
\<close>
datatype Result =
  Result (resString: string) (resInt: int64) (resBoolean: bool) (resDouble: float64)
         (resDateTime: Time) (resBase64: "byte list") (resStruct: "string \<Rightarrow> Result option")
         (resArray: "Result list") (kind: Kind)

text \<open>The composite literals of \<open>parseElement\<close>: the fields not named keep their zero value.\<close>
definition zeroResult :: Result where
  "zeroResult = Result [] 0 False 0 zeroTime [] Map.empty [] KindInvalid"
definition stringResult :: "string \<Rightarrow> Result" where
  "stringResult x = Result x 0 False 0 zeroTime [] Map.empty [] KindString"
definition intResult :: "int64 \<Rightarrow> Result" where
  "intResult x = Result [] x False 0 zeroTime [] Map.empty [] KindInt"
definition boolResult :: "bool \<Rightarrow> Result" where
  "boolResult x = Result [] 0 x 0 zeroTime [] Map.empty [] KindBool"
definition doubleResult :: "float64 \<Rightarrow> Result" where
  "doubleResult x = Result [] 0 False x zeroTime [] Map.empty [] KindDouble"
definition dateTimeResult :: "Time \<Rightarrow> Result" where
  "dateTimeResult x = Result [] 0 False 0 x [] Map.empty [] KindDateTime"
definition base64Result :: "byte list \<Rightarrow> Result" where
  "base64Result x = Result [] 0 False 0 zeroTime x Map.empty [] KindBase64"
definition arrayResult :: "Result list \<Rightarrow> Result" where
  "arrayResult x = Result [] 0 False 0 zeroTime [] Map.empty x KindArray"
definition structResult :: "(string \<Rightarrow> Result option) \<Rightarrow> Result" where
  "structResult x = Result [] 0 False 0 zeroTime [] x [] KindStruct"

text \<open>
  \<open>strconv.FormatFloat(x, 'f', -1, 64)\<close> and \<open>strconv.ParseFloat(s, 64)\<close> are taken as they
  are: the codec hands the number to one and the text to the other and looks at neither.
\<close>
record strconvFloat =
  FormatFloat :: "float64 \<Rightarrow> string"
  ParseFloat :: "string \<Rightarrow> float64 option"

text \<open>Termination of the decoder: every element a path query finds lies inside the element queried.\<close>

definition sizes :: "element list \<Rightarrow> nat" where
  "sizes es = sum_list (map size es)"

lemma sizes_simps [simp]: "sizes [] = 0" "sizes (e # es) = size e + sizes es"
  by (simp_all add: sizes_def)

lemma sizes_append [simp]: "sizes (xs @ ys) = sizes xs + sizes ys"
  by (simp add: sizes_def)

lemma sizes_filter_le: "sizes (filter P es) \<le> sizes es"
  by (induction es) auto

lemma sizes_ChildElements: "sizes (ChildElements e) < size e"
proof (cases e)
  case (Element t x cs)
  have "sizes cs \<le> size_list size cs"
    by (induction cs) auto
  with Element show ?thesis by simp
qed

lemma sizes_selectChildren: "sizes (selectChildren tag e) < size e"
  using sizes_filter_le [of "\<lambda>c. Tag c = tag" "ChildElements e"] sizes_ChildElements [of e]
  by (simp add: selectChildren_def)

lemma sizes_concat_select: "sizes (concat (map (selectChildren tag) es)) \<le> sizes es"
proof (induction es)
  case Nil
  then show ?case by simp
next
  case (Cons e es)
  then show ?case using sizes_selectChildren [of tag e] by simp
qed

lemma sizes_findPath: "sizes (findPath segs es) \<le> sizes es"
proof (induction segs arbitrary: es)
  case Nil
  then show ?case by simp
next
  case (Cons seg segs)
  have "sizes (findPath segs (concat (map (selectChildren seg) es)))
          \<le> sizes (concat (map (selectChildren seg) es))"
    by (rule Cons.IH)
  also have "\<dots> \<le> sizes es" by (rule sizes_concat_select)
  finally show ?case by simp
qed

lemma sizes_FindElements: "sizes (FindElements path e) \<le> size e"
  using sizes_findPath [of "splitPath path" "[e]"] by (simp add: FindElements_def)

lemma size_FindElement: "FindElement path e = Some x \<Longrightarrow> size x \<le> size e"
  using sizes_FindElements [of path e]
  by (auto simp: FindElement_def split: list.splits)

lemma size_only_child: "ChildElements v = [c] \<Longrightarrow> size c < size v"
  using sizes_ChildElements [of v] by simp

text \<open>
  \<open>parseElement\<close>, \<open>parseArray\<close> and \<open>parseStruct\<close> call one another. The two
  \<open>for ... range\<close> loops are \<open>parseArrayLoop\<close> and \<open>parseStructLoop\<close>: they take the
  elements still to visit and the \<open>results\<close> built so far.
\<close>
function parseElement :: "strconvFloat \<Rightarrow> element \<Rightarrow> error + Result"
  and parseArray :: "strconvFloat \<Rightarrow> element \<Rightarrow> error + Result list"
  and parseArrayLoop :: "strconvFloat \<Rightarrow> element list \<Rightarrow> Result list \<Rightarrow> error + Result list"
  and parseStruct :: "strconvFloat \<Rightarrow> element \<Rightarrow> error + (string \<Rightarrow> Result option)"
  and parseStructLoop ::
    "strconvFloat \<Rightarrow> element list \<Rightarrow> (string \<Rightarrow> Result option)
       \<Rightarrow> error + (string \<Rightarrow> Result option)"
where
  "parseElement lib e =
     (if Tag e = ''string'' then Inr (stringResult (Text e))
      else if Tag e = ''int'' \<or> Tag e = ''i4'' then
        (case Atoi (Text e) of
           None \<Rightarrow> Inl (IntegerConversionFailed (Text e))
         | Some number \<Rightarrow> Inr (intResult (of_int number)))
      else if Tag e = ''boolean'' then
        (case ParseBool (Text e) of
           None \<Rightarrow> Inl (BooleanConversionFailed (Text e))
         | Some boolean \<Rightarrow> Inr (boolResult boolean))
      else if Tag e = ''double'' then
        (case ParseFloat lib (Text e) of
           None \<Rightarrow> Inl (DoubleConversionFailed (Text e))
         | Some double \<Rightarrow> Inr (doubleResult double))
      else if Tag e = ''dateTime.iso8601'' then
        (case ParseRFC3339 (Text e) of
           None \<Rightarrow> Inl (DateTimeConversionFailed (Text e))
         | Some time \<Rightarrow> Inr (dateTimeResult time))
      else if Tag e = ''base64'' then
        (case DecodeString (Text e) of
           None \<Rightarrow> Inl (Base64ConversionFailed (Text e))
         | Some base64 \<Rightarrow> Inr (base64Result base64))
      else if Tag e = ''array'' then
        (case parseArray lib e of
           Inl err \<Rightarrow> Inl err
         | Inr results \<Rightarrow> Inr (arrayResult results))
      else if Tag e = ''struct'' then
        (case parseStruct lib e of
           Inl err \<Rightarrow> Inl err
         | Inr results \<Rightarrow> Inr (structResult results))
      else Inl (UnrecognizedTag (Tag e)))"
| "parseArray lib e =
     (case parseArrayLoop lib (FindElements arrayValuePath e) [] of
        Inl err \<Rightarrow> Inl err
      | Inr results \<Rightarrow>
          (if length results = 0 then Inl EmptyArrayNotAllowed else Inr results))"
| "parseArrayLoop lib [] results = Inr results"
| "parseArrayLoop lib (element # rest) results =
     (case ChildElements element of
        [child] \<Rightarrow>
          (case parseElement lib child of
             Inl err \<Rightarrow> Inl err
           | Inr v \<Rightarrow> parseArrayLoop lib rest (results @ [v]))
      | _ \<Rightarrow> Inl MalformedValue)"
| "parseStruct lib e =
     (case parseStructLoop lib (FindElements structMemberPath e) Map.empty of
        Inl err \<Rightarrow> Inl err
      | Inr results \<Rightarrow>
          (if dom results = {} then Inl EmptyStructNotAllowed else Inr results))"
| "parseStructLoop lib [] results = Inr results"
| "parseStructLoop lib (member # rest) results =
     (case FindElement structMemberNameTag member of
        None \<Rightarrow> Inl MissingMemberName
      | Some name \<Rightarrow>
          (case FindElement structMemberValueTag member of
             None \<Rightarrow> Inl MissingMemberValue
           | Some v \<Rightarrow>
               (if results (Text name) \<noteq> None then Inl (DuplicateMemberName (Text name))
                else
                  (case ChildElements v of
                     [child] \<Rightarrow>
                       (case parseElement lib child of
                          Inl err \<Rightarrow> Inl err
                        | Inr ret \<Rightarrow> parseStructLoop lib rest (results(Text name \<mapsto> ret)))
                   | _ \<Rightarrow> Inl MalformedValue))))"
  by pat_completeness auto
termination
proof (relation "measure (\<lambda>x. case x of
          Inl (Inl (lib, e)) \<Rightarrow> 3 * size e + 2
        | Inl (Inr (lib, e)) \<Rightarrow> 3 * size e + 1
        | Inr (Inl (lib, es, rs)) \<Rightarrow> 3 * sizes es
        | Inr (Inr (Inl (lib, e))) \<Rightarrow> 3 * size e + 1
        | Inr (Inr (Inr (lib, es, rs))) \<Rightarrow> 3 * sizes es)", goal_cases)
  case 1
  show ?case by simp
next
  case (2 lib e)
  show ?case by simp
next
  case (3 lib e)
  show ?case by simp
next
  case (4 lib e)
  show ?case using sizes_FindElements [of arrayValuePath e] by simp
next
  case (5 lib element rest results child)
  then show ?case using size_only_child [of element child] by simp
next
  case (6 lib element rest results child x)
  show ?case using size_only_child [of element child] 6 by simp
next
  case (7 lib e)
  show ?case using sizes_FindElements [of structMemberPath e] by simp
next
  case (8 lib member rest results name v child)
  then show ?case
    using size_only_child [of v child] size_FindElement [of structMemberValueTag member v]
    by simp
next
  case (9 lib member rest results name v child ret)
  then show ?case
    using size_only_child [of v child] size_FindElement [of structMemberValueTag member v]
    by simp
qed

definition parseValue :: "strconvFloat \<Rightarrow> element \<Rightarrow> error + Result" where
  "parseValue lib e =
     (case ChildElements e of
        [child] \<Rightarrow> parseElement lib child
      | _ \<Rightarrow> Inl MalformedValue)"

text \<open>
  The loop of \<open>parseFault\<close> over the members, carrying \<open>errCode\<close> and \<open>errMsg\<close>; a member
  without a \<open>name\<close> child ends the loop (\<open>break\<close>).
\<close>
fun parseFaultLoop ::
  "element list \<Rightarrow> element option \<Rightarrow> element option \<Rightarrow> element option \<times> element option"
where
  "parseFaultLoop [] errCode errMsg = (errCode, errMsg)"
| "parseFaultLoop (member # rest) errCode errMsg =
     (case FindElement faultMemberNameTag member of
        None \<Rightarrow> (errCode, errMsg)
      | Some name \<Rightarrow>
          (let errCode' =
                 (if Text name = faultCodeName then
                    (case FindElement faultMemberValueIntPath member of
                       None \<Rightarrow> FindElement faultMemberValueI4Path member
                     | Some c \<Rightarrow> Some c)
                  else errCode);
               errMsg' =
                 (if Text name = faultStringName
                  then FindElement faultMemberValueStringPath member
                  else errMsg)
           in parseFaultLoop rest errCode' errMsg'))"

definition parseFault :: "element \<Rightarrow> error + Result" where
  "parseFault e =
     (let members = FindElements faultMembersPath e
      in if length members \<noteq> 2 then Inl UnrecognizedFault
         else
           (case parseFaultLoop members None None of
              (Some errCode, Some errMsg) \<Rightarrow> Inl (RemoteFault (Text errCode) (Text errMsg))
            | _ \<Rightarrow> Inl UnrecognizedFault))"

definition parseResponse :: "strconvFloat \<Rightarrow> element \<Rightarrow> error + Result" where
  "parseResponse lib doc =
     (let valueTag = FindElement methodResponseValuePath doc;
          faultTag = FindElement methodResponseFaultPath doc
      in if (valueTag = None \<and> faultTag = None) \<or> (valueTag \<noteq> None \<and> faultTag \<noteq> None)
         then Inl UnrecognizedResponse
         else
           (case faultTag of
              Some f \<Rightarrow> parseFault f
            | None \<Rightarrow> (case valueTag of Some v \<Rightarrow> parseValue lib v
                                       | None \<Rightarrow> Inl UnrecognizedResponse)))"

text \<open>The accessors of \<open>Result\<close> return the field as it is.\<close>
definition ResultString :: "Result \<Rightarrow> string" where "ResultString r = resString r"
definition ResultInt :: "Result \<Rightarrow> int64" where "ResultInt r = resInt r"
definition ResultBoolean :: "Result \<Rightarrow> bool" where "ResultBoolean r = resBoolean r"
definition ResultDouble :: "Result \<Rightarrow> float64" where "ResultDouble r = resDouble r"
definition ResultDateTime :: "Result \<Rightarrow> Time" where "ResultDateTime r = resDateTime r"
definition ResultBase64 :: "Result \<Rightarrow> byte list" where "ResultBase64 r = resBase64 r"
definition ResultStruct :: "Result \<Rightarrow> (string \<Rightarrow> Result option)" where
  "ResultStruct r = resStruct r"
definition ResultArray :: "Result \<Rightarrow> Result list" where "ResultArray r = resArray r"

declare parseElement.simps [simp del] parseArray.simps [simp del] parseStruct.simps [simp del]

section \<open>The request builders\<close>

definition enMethodCall :: string where "enMethodCall = ''methodCall''"
definition enMethodName :: string where "enMethodName = ''methodName''"
definition enParams :: string where "enParams = ''params''"
definition enParam :: string where "enParam = ''param''"
definition enValue :: string where "enValue = ''value''"
definition enInt :: string where "enInt = ''int''"
definition enBoolean :: string where "enBoolean = ''boolean''"
definition enString :: string where "enString = ''string''"
definition enDouble :: string where "enDouble = ''double''"
definition enDateTime :: string where "enDateTime = ''dateTime.iso8601''"
definition enBase64 :: string where "enBase64 = ''base64''"
definition enMember :: string where "enMember = ''member''"
definition enName :: string where "enName = ''name''"
definition enStruct :: string where "enStruct = ''struct''"
definition enArray :: string where "enArray = ''array''"
definition enData :: string where "enData = ''data''"

text \<open>
  \<open>FindElement\<close> returns a pointer and the builders add children through it. Without
  pointers, \<open>modifyFirst segs f e\<close> rebuilds \<open>e\<close> with \<open>f\<close> applied to the element the path
  finds first, and is \<open>None\<close> when the path finds nothing.
\<close>
fun modifyFirst :: "string list \<Rightarrow> (element \<Rightarrow> element) \<Rightarrow> element \<Rightarrow> element option"
  and modifyFirstChild ::
    "string \<Rightarrow> string list \<Rightarrow> (element \<Rightarrow> element) \<Rightarrow> element list \<Rightarrow> element list option"
where
  "modifyFirst [] f e = Some (f e)"
| "modifyFirst (seg # segs) f (Element t x cs) =
     map_option (Element t x) (modifyFirstChild seg segs f cs)"
| "modifyFirstChild seg segs f [] = None"
| "modifyFirstChild seg segs f (c # cs) =
     (if Tag c = seg then
        (case modifyFirst segs f c of
           Some c' \<Rightarrow> Some (c' # cs)
         | None \<Rightarrow> map_option ((#) c) (modifyFirstChild seg segs f cs))
      else map_option ((#) c) (modifyFirstChild seg segs f cs))"

definition newPayload :: "string \<Rightarrow> element" where
  "newPayload methodName =
     (let elMethodName = SetText methodName (NewElement enMethodName);
          elMethodCall = AddChild (NewElement enParams) (AddChild elMethodName (NewElement enMethodCall))
      in AddChild elMethodCall (NewElement []))"

definition newScalar :: "string \<Rightarrow> string \<Rightarrow> element" where
  "newScalar typeName data = SetText data (NewElement typeName)"

definition newInt :: "int64 \<Rightarrow> element" where
  "newInt data = newScalar enInt (FormatInt (sint data))"

definition newBoolean :: "bool \<Rightarrow> element" where
  "newBoolean data = (if data then newScalar enBoolean ''1'' else newScalar enBoolean ''0'')"

definition newString :: "string \<Rightarrow> element" where
  "newString data = newScalar enString data"

definition newDouble :: "strconvFloat \<Rightarrow> float64 \<Rightarrow> element" where
  "newDouble lib data = newScalar enDouble (FormatFloat lib data)"

definition newDateTime :: "Time \<Rightarrow> element" where
  "newDateTime data = newScalar enDateTime (Format (UTC data))"

definition newBase64 :: "byte list \<Rightarrow> element" where
  "newBase64 data = newScalar enBase64 (EncodeToString data)"

definition newStruct :: element where
  "newStruct = NewElement enStruct"

definition newArray :: element where
  "newArray = AddChild (NewElement enData) (NewElement enArray)"

text \<open>The method \<open>toValue()\<close> of a scalar, a structure and an array is \<open>wrapToValue\<close>.\<close>
definition wrapToValue :: "element \<Rightarrow> element" where
  "wrapToValue v = AddChild v (NewElement enValue)"

definition toParam :: "element \<Rightarrow> element" where
  "toParam v = AddChild v (NewElement enParam)"

definition addParam :: "element \<Rightarrow> element \<Rightarrow> error + element" where
  "addParam p v =
     (case modifyFirst (splitPath (enMethodCall @ ''/'' @ enParams))
             (AddChild (toParam (wrapToValue v))) p of
        None \<Rightarrow> Inl (Panic ''params element not found'')
      | Some p' \<Rightarrow> Inr p')"

definition newMember :: "string \<Rightarrow> element \<Rightarrow> element" where
  "newMember name v =
     AddChild (wrapToValue v) (AddChild (SetText name (NewElement enName)) (NewElement enMember))"

definition addMember :: "string \<Rightarrow> element \<Rightarrow> element \<Rightarrow> element" where
  "addMember name v s = AddChild (newMember name v) s"

definition addValue :: "element \<Rightarrow> element \<Rightarrow> error + element" where
  "addValue a v =
     (case modifyFirst (splitPath enData) (AddChild (wrapToValue v)) a of
        None \<Rightarrow> Inl (Panic ''data element not found'')
      | Some a' \<Rightarrow> Inr a')"

section \<open>client.go: converting native values\<close>

text \<open>
  The values an \<open>interface{}\<close> argument can hold, as far as \<open>toValue\<close> tells them apart:
  the kind of the value, the data the converter reads, and for a sequence or a map the
  facts about its type that the converter asks \<open>reflect\<close> for.
\<close>
datatype intType = TInt | TInt8 | TInt16 | TInt32 | TInt64
datatype floatType = TFloat32 | TFloat64
datatype seqType = TArray | TSlice

text \<open>The kinds that have no case of their own in the \<open>switch\<close> of \<open>toValue\<close>, \<open>int64\<close> apart.\<close>
datatype otherType =
    TUint | TUint8 | TUint16 | TUint32 | TUint64 | TUintptr | TComplex64 | TComplex128
  | TChan | TFunc | TPtr | TUnsafePointer

text \<open>
  The key type of a map: \<open>string\<close> itself, a defined type whose underlying type is
  \<open>string\<close> (its kind is \<open>reflect.String\<close> too), or a type of another kind.
\<close>
datatype keyType = StringKey | DefinedStringKey | OtherKey

text \<open>
  \<^item> \<open>NNil\<close> is the nil interface; \<open>NInt t i\<close> holds what \<open>v.Int()\<close> returns and
    \<open>NFloat t x\<close> what \<open>v.Float()\<close> returns.
  \<^item> \<open>NTime\<close> is a \<open>time.Time\<close>; \<open>NStruct\<close> is a value of any other struct type.
  \<^item> \<open>NByteSlice\<close> is a value of the type \<open>[]byte\<close>. \<open>NByteSeq\<close> is a value of any other
    array or slice type whose element kind is \<open>reflect.Uint8\<close>: an array \<open>[n]byte\<close>, a
    slice of a defined type. \<open>NSeq\<close> is an array or slice whose element kind is not
    \<open>reflect.Uint8\<close>, with what \<open>v.Index(i).Interface()\<close> returns for each index.
  \<^item> \<open>NMap\<close> is a map: its key type and its entries in the order in which this call of
    \<open>v.MapKeys()\<close> returns the keys, each key as \<open>k.String()\<close> reads it, with the value
    stored under it.
\<close>
datatype native =
    NNil
  | NBool bool
  | NInt intType int64
  | NFloat floatType float64
  | NString string
  | NTime Time
  | NStruct
  | NByteSlice "byte list"
  | NByteSeq seqType "byte list"
  | NSeq seqType "native list"
  | NMap keyType "(string \<times> native) list"
  | NOther otherType

fun intKind :: "intType \<Rightarrow> kind" where
  "intKind TInt = KInt"
| "intKind TInt8 = KInt8"
| "intKind TInt16 = KInt16"
| "intKind TInt32 = KInt32"
| "intKind TInt64 = KInt64"

fun otherKind :: "otherType \<Rightarrow> kind" where
  "otherKind TUint = KUint"
| "otherKind TUint8 = KUint8"
| "otherKind TUint16 = KUint16"
| "otherKind TUint32 = KUint32"
| "otherKind TUint64 = KUint64"
| "otherKind TUintptr = KUintptr"
| "otherKind TComplex64 = KComplex64"
| "otherKind TComplex128 = KComplex128"
| "otherKind TChan = KChan"
| "otherKind TFunc = KFunc"
| "otherKind TPtr = KPtr"
| "otherKind TUnsafePointer = KUnsafePointer"

text \<open>
  \<open>toValue\<close>, one equation for each group of kinds the \<open>switch\<close> tells apart.
  \<^item> \<open>reflect.Int\<close>, \<open>Int8\<close>, \<open>Int16\<close> and \<open>Int32\<close> fall through to \<open>newInt\<close>;
    \<open>reflect.Int64\<close> has no case and reaches \<open>default\<close>.
  \<^item> For an array or slice with element kind \<open>reflect.Uint8\<close> the type assertion
    \<open>arg.([]byte)\<close> holds for a \<open>[]byte\<close> and panics for every other type.
  \<^item> \<open>constructStruct\<close> checks each key's kind, then reads the value with
    \<open>v.MapIndex(reflect.ValueOf(key))\<close>, \<open>key\<close> being a \<open>string\<close>: \<open>MapIndex\<close> panics when
    a \<open>string\<close> is not assignable to the key type, as for a defined key type.
\<close>
fun toValue :: "strconvFloat \<Rightarrow> native \<Rightarrow> error + element"
  and constructArray :: "strconvFloat \<Rightarrow> native list \<Rightarrow> error + element"
  and constructArrayLoop :: "strconvFloat \<Rightarrow> native list \<Rightarrow> element \<Rightarrow> error + element"
  and constructStruct :: "strconvFloat \<Rightarrow> keyType \<Rightarrow> (string \<times> native) list \<Rightarrow> error + element"
  and constructStructLoop ::
    "strconvFloat \<Rightarrow> keyType \<Rightarrow> (string \<times> native) list \<Rightarrow> element \<Rightarrow> error + element"
where
  "toValue lib NNil = Inl (InvalidType KInvalid)"
| "toValue lib (NBool b) = Inr (newBoolean b)"
| "toValue lib (NInt t i) = (if t = TInt64 then Inl (InvalidType (intKind t)) else Inr (newInt i))"
| "toValue lib (NFloat t x) = Inr (newDouble lib x)"
| "toValue lib (NString s) = Inr (newString s)"
| "toValue lib (NTime t) = Inr (newDateTime t)"
| "toValue lib NStruct = Inl (InvalidType KStruct)"
| "toValue lib (NByteSlice bs) = Inr (newBase64 bs)"
| "toValue lib (NByteSeq st bs) = Inl (Panic ''interface conversion: interface {} is not []uint8'')"
| "toValue lib (NSeq st xs) = constructArray lib xs"
| "toValue lib (NMap kt es) = constructStruct lib kt es"
| "toValue lib (NOther t) = Inl (InvalidType (otherKind t))"
| "constructArray lib xs = constructArrayLoop lib xs newArray"
| "constructArrayLoop lib [] array = Inr array"
| "constructArrayLoop lib (x # rest) array =
     (case toValue lib x of
        Inl err \<Rightarrow> Inl err
      | Inr v \<Rightarrow>
          (case addValue array v of
             Inl err \<Rightarrow> Inl err
           | Inr array' \<Rightarrow> constructArrayLoop lib rest array'))"
| "constructStruct lib kt es = constructStructLoop lib kt es newStruct"
| "constructStructLoop lib kt [] s = Inr s"
| "constructStructLoop lib kt ((key, x) # rest) s =
     (if kt = OtherKey then Inl (InvalidType KMap)
      else if kt = DefinedStringKey then
        Inl (Panic ''reflect.Value.MapIndex: value of type string is not assignable'')
      else
        (case toValue lib x of
           Inl err \<Rightarrow> Inl err
         | Inr v \<Rightarrow> constructStructLoop lib kt rest (addMember key v s)))"

text \<open>
  \<open>preparePayload\<close>: the loop over the arguments, then the document. An error of \<open>toValue\<close>
  is wrapped; a panic is not an error value and passes every caller. Writing the document
  to the buffer is \<open>etree\<close>'s work: the bytes are a function of the document returned here.
\<close>
fun preparePayloadLoop :: "strconvFloat \<Rightarrow> native list \<Rightarrow> element \<Rightarrow> error + element" where
  "preparePayloadLoop lib [] payload = Inr payload"
| "preparePayloadLoop lib (arg # rest) payload =
     (case toValue lib arg of
        Inl (Panic msg) \<Rightarrow> Inl (Panic msg)
      | Inl err \<Rightarrow> Inl (Wrap ''method arguments parsing failed'' err)
      | Inr v \<Rightarrow>
          (case addParam payload v of
             Inl err \<Rightarrow> Inl err
           | Inr payload' \<Rightarrow> preparePayloadLoop lib rest payload'))"

definition preparePayload :: "strconvFloat \<Rightarrow> string \<Rightarrow> native list \<Rightarrow> error + element" where
  "preparePayload lib methodName args = preparePayloadLoop lib args (newPayload methodName)"

section \<open>Values for running the codec\<close>

text \<open>
  The two library functions at the number zero, which is all the examples below need:
  \<open>strconv.FormatFloat(0, 'f', -1, 64)\<close> is \<open>"0"\<close> and \<open>strconv.ParseFloat("0", 64)\<close>
  is \<open>0\<close>.
\<close>
definition strconvAtZero :: strconvFloat where
  "strconvAtZero =
     \<lparr>FormatFloat = (\<lambda>x. if x = 0 then ''0'' else ''?''),
      ParseFloat = (\<lambda>s. if s = ''0'' then Some 0 else None)\<rparr>"

text \<open>
  Response documents: the document with a \<open>methodResponse\<close> root, a \<open>params\<close> element
  holding one value, and a \<open>fault\<close> element holding a structure.
\<close>
definition responseOf :: "element list \<Rightarrow> element" where
  "responseOf cs = Element [] [] [Element ''methodResponse'' [] cs]"

definition paramsOf :: "element \<Rightarrow> element" where
  "paramsOf v = AddChild (toParam (wrapToValue v)) (NewElement enParams)"

definition faultOf :: "element list \<Rightarrow> element" where
  "faultOf members = Element ''fault'' [] [wrapToValue (Element enStruct [] members)]"

section \<open>Notions the properties are stated with\<close>

text \<open>
  What a fault member contributes: the element its \<open>faultCode\<close> resolves to (an \<open>int\<close>,
  or else an \<open>i4\<close>) and the element its \<open>faultString\<close> resolves to.
\<close>
definition faultCodeOf :: "element \<Rightarrow> element option" where
  "faultCodeOf member =
     (case FindElement faultMemberNameTag member of
        None \<Rightarrow> None
      | Some name \<Rightarrow>
          (if Text name = faultCodeName then
             (case FindElement faultMemberValueIntPath member of
                None \<Rightarrow> FindElement faultMemberValueI4Path member
              | Some c \<Rightarrow> Some c)
           else None))"

definition faultStringOf :: "element \<Rightarrow> element option" where
  "faultStringOf member =
     (case FindElement faultMemberNameTag member of
        None \<Rightarrow> None
      | Some name \<Rightarrow>
          (if Text name = faultStringName then FindElement faultMemberValueStringPath member
           else None))"

text \<open>
  The shapes the request builders keep: a payload with its parameters, an array with the
  values under its \<open>data\<close> element.
\<close>
definition payloadOf :: "string \<Rightarrow> element list \<Rightarrow> element" where
  "payloadOf methodName ps =
     Element [] []
       [Element enMethodCall [] [Element enMethodName methodName [], Element enParams [] ps]]"

definition arrayOf :: "element list \<Rightarrow> element" where
  "arrayOf vs = Element enArray [] [Element enData [] vs]"

text \<open>
  The converted elements of a list of native values, in order, or the error of the first
  one that \<open>toValue\<close> refuses.
\<close>
fun toValues :: "strconvFloat \<Rightarrow> native list \<Rightarrow> error + element list" where
  "toValues lib [] = Inr []"
| "toValues lib (x # xs) =
     (case toValue lib x of
        Inl err \<Rightarrow> Inl err
      | Inr v \<Rightarrow> (case toValues lib xs of Inl err \<Rightarrow> Inl err | Inr vs \<Rightarrow> Inr (v # vs)))"



text \<open>A value element is malformed when it does not have exactly one child element.\<close>
definition malformed :: "element \<Rightarrow> bool" where
  "malformed v = (length (ChildElements v) \<noteq> 1)"

text \<open>
  A struct member is well formed when it has a \<open>name\<close> child and a \<open>value\<close> child whose only
  child decodes: \<open>memberResult\<close> is then the name and the decoded value.
\<close>
definition memberResult :: "strconvFloat \<Rightarrow> element \<Rightarrow> (string \<times> Result) option" where
  "memberResult lib member =
     (case FindElement structMemberNameTag member of
        None \<Rightarrow> None
      | Some name \<Rightarrow>
          (case FindElement structMemberValueTag member of
             None \<Rightarrow> None
           | Some v \<Rightarrow>
               (case ChildElements v of
                  [child] \<Rightarrow>
                    (case parseElement lib child of
                       Inl err \<Rightarrow> None
                     | Inr ret \<Rightarrow> Some (Text name, ret))
                | _ \<Rightarrow> None)))"

text \<open>A value element is well formed when its only child decodes: \<open>valueResult\<close> is the result.\<close>
definition valueResult :: "strconvFloat \<Rightarrow> element \<Rightarrow> Result option" where
  "valueResult lib v =
     (case ChildElements v of
        [child] \<Rightarrow> (case parseElement lib child of Inl err \<Rightarrow> None | Inr ret \<Rightarrow> Some ret)
      | _ \<Rightarrow> None)"

text \<open>The text of the first \<open>name\<close> child of a member, if it has one.\<close>
definition memberName :: "element \<Rightarrow> string option" where
  "memberName member = map_option Text (FindElement structMemberNameTag member)"

text \<open>The method \<open>Kind()\<close> of a \<open>Result\<close>.\<close>
definition Kind :: "Result \<Rightarrow> Kind" where "Kind r = kind r"

text \<open>
  Every accessor that does not match \<open>Kind()\<close> returns the zero value of its type, and the
  kind is not the invalid one.
\<close>
definition othersZero :: "Result \<Rightarrow> bool" where
  "othersZero r =
     (Kind r \<noteq> KindInvalid
      \<and> (Kind r \<noteq> KindString \<longrightarrow> ResultString r = [])
      \<and> (Kind r \<noteq> KindInt \<longrightarrow> ResultInt r = 0)
      \<and> (Kind r \<noteq> KindBool \<longrightarrow> ResultBoolean r = False)
      \<and> (Kind r \<noteq> KindDouble \<longrightarrow> ResultDouble r = 0)
      \<and> (Kind r \<noteq> KindDateTime \<longrightarrow> ResultDateTime r = zeroTime)
      \<and> (Kind r \<noteq> KindBase64 \<longrightarrow> ResultBase64 r = [])
      \<and> (Kind r \<noteq> KindStruct \<longrightarrow> ResultStruct r = Map.empty)
      \<and> (Kind r \<noteq> KindArray \<longrightarrow> ResultArray r = []))"

text \<open>The same for the result and for every result it holds, at every depth.\<close>
inductive exactlyOneKind :: "Result \<Rightarrow> bool" where
  "othersZero r \<Longrightarrow> (\<forall>x \<in> set (ResultArray r). exactlyOneKind x)
     \<Longrightarrow> (\<forall>key x. ResultStruct r key = Some x \<longrightarrow> exactlyOneKind x)
     \<Longrightarrow> exactlyOneKind r"

section \<open>Evaluating trees and paths\<close>

lemmas tree_eval =
  FindElement_def FindElements_def selectChildren_def NewElement_def AddChild_def SetText_def
  wrapToValue_def toParam_def newMember_def newScalar_def newInt_def newString_def
  enValue_def enParam_def enParams_def enMember_def enName_def enStruct_def enInt_def
  enString_def enArray_def enData_def enBoolean_def enDouble_def enBase64_def enDateTime_def
  enMethodCall_def enMethodName_def
  faultMembersPath_def faultMemberNameTag_def faultMemberValueIntPath_def
  faultMemberValueI4Path_def faultMemberValueStringPath_def faultCodeName_def
  faultStringName_def methodResponseValuePath_def methodResponseFaultPath_def
  arrayValuePath_def structMemberPath_def structMemberNameTag_def structMemberValueTag_def
  responseOf_def paramsOf_def faultOf_def

section \<open>The response entry point\<close>

text \<open>No decoder of a value reports an unrecognized response: that error is the entry point's own.\<close>
lemma decode_errors:
  "parseElement lib e \<noteq> Inl UnrecognizedResponse"
  "parseArray lib e \<noteq> Inl UnrecognizedResponse"
  "parseArrayLoop lib es rs \<noteq> Inl UnrecognizedResponse"
  "parseStruct lib e \<noteq> Inl UnrecognizedResponse"
  "parseStructLoop lib ms m \<noteq> Inl UnrecognizedResponse"
proof (induction lib e and lib e and lib es rs and lib e and lib ms m
    rule: parseElement_parseArray_parseArrayLoop_parseStruct_parseStructLoop.induct)
  case (1 lib e)
  then show ?case
    by (subst parseElement.simps) (auto split: option.splits sum.splits)
next
  case (2 lib e)
  then show ?case
    by (subst parseArray.simps) (auto split: sum.splits)
next
  case (3 lib results)
  show ?case by simp
next
  case (4 lib element rest results)
  then show ?case
    by (auto split: list.splits sum.splits)
next
  case (5 lib e)
  then show ?case
    by (subst parseStruct.simps) (auto split: sum.splits)
next
  case (6 lib results)
  show ?case by simp
next
  case (7 lib member rest results)
  then show ?case
    by (auto simp: fun_upd_def split: list.splits sum.splits option.splits)
qed

lemma parseFault_not_response: "parseFault f \<noteq> Inl UnrecognizedResponse"
  by (simp add: parseFault_def Let_def split: prod.splits option.splits)

lemma parseValue_not_response: "parseValue lib v \<noteq> Inl UnrecognizedResponse"
  by (simp add: parseValue_def decode_errors split: list.splits)

text \<open>
  Claim C2. For every response document, \<open>parseResponse\<close> fails with the
  unrecognized-response error if and only if the success-value path and the fault path are
  both found or both not found. When only the value path is found, the result is that of
  \<open>parseValue\<close> on the element found, and when only the fault path is found, that of
  \<open>parseFault\<close> on the element found, whatever they contain.
\<close>
theorem parseResponse_exclusive:
  "(parseResponse lib doc = Inl UnrecognizedResponse) =
     ((FindElement methodResponseValuePath doc = None) =
      (FindElement methodResponseFaultPath doc = None))
   \<and> (\<forall>v. FindElement methodResponseValuePath doc = Some v \<and>
          FindElement methodResponseFaultPath doc = None
          \<longrightarrow> parseResponse lib doc = parseValue lib v)
   \<and> (\<forall>f. FindElement methodResponseFaultPath doc = Some f \<and>
          FindElement methodResponseValuePath doc = None
          \<longrightarrow> parseResponse lib doc = parseFault f)"
  using parseFault_not_response parseValue_not_response
  by (auto simp: parseResponse_def Let_def split: option.splits)

text \<open>
  The four shapes: no root at all, a value and a fault together, a value alone, a fault
  alone.
\<close>
theorem parseResponse_exclusive_witness:
  "parseResponse strconvAtZero (Element [] [] []) = Inl UnrecognizedResponse
   \<and> parseResponse strconvAtZero (responseOf [paramsOf (newInt 7), faultOf []])
       = Inl UnrecognizedResponse
   \<and> parseResponse strconvAtZero (responseOf [paramsOf (newInt 7)])
       = parseValue strconvAtZero (wrapToValue (newInt 7))
   \<and> parseResponse strconvAtZero (responseOf [faultOf []]) = parseFault (faultOf [])"
  using parseResponse_exclusive [of strconvAtZero "Element [] [] []"]
    parseResponse_exclusive [of strconvAtZero "responseOf [paramsOf (newInt 7), faultOf []]"]
    parseResponse_exclusive [of strconvAtZero "responseOf [paramsOf (newInt 7)]"]
    parseResponse_exclusive [of strconvAtZero "responseOf [faultOf []]"]
  by (simp add: tree_eval)

section \<open>The fault path\<close>

lemma fault_names_differ: "faultCodeName \<noteq> faultStringName"
  by (simp add: faultCodeName_def faultStringName_def)

lemma two_members: "length (ms :: element list) = 2 \<Longrightarrow> \<exists>m1 m2. ms = [m1, m2]"
  by (cases ms; cases "tl ms") auto

lemma parseFaultLoop_two:
  "parseFaultLoop [m1, m2] None None =
     (case FindElement faultMemberNameTag m1 of
        None \<Rightarrow> (None, None)
      | Some n1 \<Rightarrow>
          (case FindElement faultMemberNameTag m2 of
             None \<Rightarrow> (faultCodeOf m1, faultStringOf m1)
           | Some n2 \<Rightarrow>
               (if Text n2 = faultCodeName then faultCodeOf m2 else faultCodeOf m1,
                if Text n2 = faultStringName then faultStringOf m2 else faultStringOf m1)))"
  by (simp add: faultCodeOf_def faultStringOf_def Let_def split: option.splits)

text \<open>
  Claim C5. \<open>parseFault\<close> counts the members that the path \<open>value/struct/member\<close> finds
  under the fault element, over all its \<open>value\<close> children and all their \<open>struct\<close> children
  together, and never looks at one structure alone. With \<open>members\<close> these members:
  \<open>parseFault\<close> returns the unrecognized-fault error when there are not exactly two of
  them, when none is named \<open>faultCode\<close> with an \<open>int\<close> or \<open>i4\<close> value, and when none is
  named \<open>faultString\<close> with a \<open>string\<close> value. With exactly two members, one resolving to
  the code element \<open>c\<close> and one to the message element \<open>s\<close>, it returns the remote-fault
  error carrying the texts of \<open>c\<close> and \<open>s\<close>. In no case does it return a \<open>Result\<close>.
\<close>
theorem parseFault_shape:
  "(length (FindElements faultMembersPath e) \<noteq> 2 \<longrightarrow> parseFault e = Inl UnrecognizedFault)
   \<and> ((\<forall>m \<in> set (FindElements faultMembersPath e). faultCodeOf m = None)
        \<longrightarrow> parseFault e = Inl UnrecognizedFault)
   \<and> ((\<forall>m \<in> set (FindElements faultMembersPath e). faultStringOf m = None)
        \<longrightarrow> parseFault e = Inl UnrecognizedFault)
   \<and> (length (FindElements faultMembersPath e) = 2
        \<and> (\<exists>m \<in> set (FindElements faultMembersPath e). faultCodeOf m = Some c)
        \<and> (\<exists>m \<in> set (FindElements faultMembersPath e). faultStringOf m = Some s)
        \<longrightarrow> parseFault e = Inl (RemoteFault (Text c) (Text s)))
   \<and> (\<forall>r. parseFault e \<noteq> Inr r)"
proof (cases "length (FindElements faultMembersPath e) = 2")
  case False
  then show ?thesis by (simp add: parseFault_def Let_def)
next
  case True
  then obtain m1 m2 where ms: "FindElements faultMembersPath e = [m1, m2]"
    using two_members by blast
  have pf: "parseFault e =
      (case parseFaultLoop [m1, m2] None None of
         (Some errCode, Some errMsg) \<Rightarrow> Inl (RemoteFault (Text errCode) (Text errMsg))
       | _ \<Rightarrow> Inl UnrecognizedFault)"
    by (simp add: parseFault_def ms)
  show ?thesis
    unfolding pf parseFaultLoop_two ms
    using fault_names_differ
    by (auto simp: faultCodeOf_def faultStringOf_def split: option.splits)
qed

text \<open>
  No member; a member named \<open>code\<close> in place of \<open>faultCode\<close>; a \<open>faultString\<close> holding an
  \<open>int\<close>; and a fault of the right shape, its code an \<open>i4\<close>.
\<close>
theorem parseFault_shape_witness:
  "parseFault (faultOf []) = Inl UnrecognizedFault
   \<and> parseFault (faultOf [newMember ''code'' (newScalar ''int'' ''4''),
                           newMember ''faultString'' (newString ''Too many'')])
       = Inl UnrecognizedFault
   \<and> parseFault (faultOf [newMember ''faultCode'' (newScalar ''int'' ''4''),
                           newMember ''faultString'' (newScalar ''int'' ''5'')])
       = Inl UnrecognizedFault
   \<and> parseFault (faultOf [newMember ''faultCode'' (newScalar ''i4'' ''4''),
                           newMember ''faultString'' (newString ''Too many'')])
       = Inl (RemoteFault ''4'' ''Too many'')"
  using parseFault_shape [of "faultOf []"]
    parseFault_shape [of "faultOf [newMember ''code'' (newScalar ''int'' ''4''),
                           newMember ''faultString'' (newString ''Too many'')]"]
    parseFault_shape [of "faultOf [newMember ''faultCode'' (newScalar ''int'' ''4''),
                           newMember ''faultString'' (newScalar ''int'' ''5'')]"]
    parseFault_shape [of "faultOf [newMember ''faultCode'' (newScalar ''i4'' ''4''),
                           newMember ''faultString'' (newString ''Too many'')]"
                         "Element ''i4'' ''4'' []" "Element ''string'' ''Too many'' []"]
  by (simp add: faultCodeOf_def faultStringOf_def tree_eval)

text \<open>
  The claim speaks of the members of the fault value's structure. A fault with two values,
  each holding a structure of one member, has no structure of two members, and yet it is
  recognized as a remote fault: the path finds the two members, one in each structure. A
  fault whose structure holds \<open>faultCode\<close>, \<open>faultString\<close> and a third member is refused.
\<close>
theorem parseFault_two_structures:
  "parseFault (Element ''fault'' []
       [wrapToValue (Element enStruct [] [newMember ''faultCode'' (newScalar ''int'' ''4'')]),
        wrapToValue (Element enStruct [] [newMember ''faultString'' (newString ''Too many'')])])
     = Inl (RemoteFault ''4'' ''Too many'')
   \<and> map (FindElements ''member'') (FindElements ''value/struct'' (Element ''fault'' []
       [wrapToValue (Element enStruct [] [newMember ''faultCode'' (newScalar ''int'' ''4'')]),
        wrapToValue (Element enStruct [] [newMember ''faultString'' (newString ''Too many'')])]))
     = [[newMember ''faultCode'' (newScalar ''int'' ''4'')],
        [newMember ''faultString'' (newString ''Too many'')]]
   \<and> parseFault (faultOf [newMember ''faultCode'' (newScalar ''int'' ''4''),
                           newMember ''faultString'' (newString ''Too many''),
                           newMember ''extra'' (newString ''x'')])
     = Inl UnrecognizedFault"
  by (simp add: parseFault_def Let_def tree_eval)

section \<open>The request builders, read as a whole\<close>

lemma newPayload_payloadOf: "newPayload m = payloadOf m []"
  by (simp add: newPayload_def payloadOf_def Let_def NewElement_def AddChild_def SetText_def)

lemma addParam_payloadOf:
  "addParam (payloadOf m ps) v = Inr (payloadOf m (ps @ [toParam (wrapToValue v)]))"
  by (simp add: addParam_def payloadOf_def enMethodCall_def enParams_def enMethodName_def
      AddChild_def)

lemma newArray_arrayOf: "newArray = arrayOf []"
  by (simp add: newArray_def arrayOf_def NewElement_def AddChild_def)

lemma addValue_arrayOf: "addValue (arrayOf vs) v = Inr (arrayOf (vs @ [wrapToValue v]))"
  by (simp add: addValue_def arrayOf_def enData_def enArray_def AddChild_def)

lemma constructArrayLoop_arrayOf:
  "constructArrayLoop lib xs (arrayOf vs) =
     (case toValues lib xs of
        Inl err \<Rightarrow> Inl err
      | Inr els \<Rightarrow> Inr (arrayOf (vs @ map wrapToValue els)))"
proof (induction xs arbitrary: vs)
  case Nil
  show ?case by simp
next
  case (Cons x xs)
  show ?case
    by (simp add: addValue_arrayOf Cons.IH split: sum.splits)
qed

lemma constructArray_toValues:
  "constructArray lib xs =
     (case toValues lib xs of
        Inl err \<Rightarrow> Inl err
      | Inr els \<Rightarrow> Inr (arrayOf (map wrapToValue els)))"
  using constructArrayLoop_arrayOf [of lib xs "[]"]
  by (cases "toValues lib xs") (simp_all add: newArray_arrayOf)





declare constructArray.simps [simp del] constructStruct.simps [simp del]



lemma toValues_Inr:
  "toValues lib xs = Inr vs \<Longrightarrow> list_all2 (\<lambda>x v. toValue lib x = Inr v) xs vs"
  by (induction xs arbitrary: vs) (auto split: sum.splits)

lemma toValues_all:
  "list_all2 (\<lambda>x v. toValue lib x = Inr v) xs vs \<Longrightarrow> toValues lib xs = Inr vs"
  by (induction xs vs rule: list_all2_induct) auto

lemma preparePayloadLoop_payloadOf:
  "preparePayloadLoop lib args (payloadOf m ps) =
     (case toValues lib args of
        Inl (Panic msg) \<Rightarrow> Inl (Panic msg)
      | Inl err \<Rightarrow> Inl (Wrap ''method arguments parsing failed'' err)
      | Inr vs \<Rightarrow> Inr (payloadOf m (ps @ map (\<lambda>v. toParam (wrapToValue v)) vs)))"
proof (induction args arbitrary: ps)
  case Nil
  show ?case by simp
next
  case (Cons a args)
  show ?case
    by (simp add: addParam_payloadOf Cons.IH split: sum.splits error.splits)
qed

lemma preparePayload_toValues:
  "preparePayload lib m args =
     (case toValues lib args of
        Inl (Panic msg) \<Rightarrow> Inl (Panic msg)
      | Inl err \<Rightarrow> Inl (Wrap ''method arguments parsing failed'' err)
      | Inr vs \<Rightarrow> Inr (payloadOf m (map (\<lambda>v. toParam (wrapToValue v)) vs)))"
  using preparePayloadLoop_payloadOf [of lib args m "[]"]
  by (cases "toValues lib args") (simp_all add: preparePayload_def newPayload_payloadOf)

section \<open>Arguments that are refused\<close>



text \<open>
  Claim C8. A value of the type \<open>[]byte\<close> converts to a \<open>base64\<close> scalar whose text is the
  standard padded encoding of the bytes. Every other value whose element kind is
  \<open>reflect.Uint8\<close>, so every array \<open>[n]byte\<close>, reaches the type assertion \<open>arg.([]byte)\<close> and
  panics there: the conversion is not total on byte sequences.
\<close>
theorem toValue_byte_sequences:
  "toValue lib (NByteSlice bs) = Inr (Element ''base64'' (EncodeToString bs) [])
   \<and> toValue lib (NByteSeq st bs)
       = Inl (Panic ''interface conversion: interface {} is not []uint8'')"
  by (simp add: newBase64_def newScalar_def NewElement_def SetText_def enBase64_def)

text \<open>
  The array \<open>[3]byte{1, 2, 3}\<close> as the only argument of a call: \<open>toValue\<close> panics and so
  does \<open>preparePayload\<close>, where the slice \<open>[]byte{1, 2, 3}\<close> is converted.
\<close>
theorem toValue_byte_array_panics:
  "toValue strconvAtZero (NByteSeq TArray [1, 2, 3])
     = Inl (Panic ''interface conversion: interface {} is not []uint8'')
   \<and> preparePayload strconvAtZero ''m'' [NByteSeq TArray [1, 2, 3]]
     = Inl (Panic ''interface conversion: interface {} is not []uint8'')
   \<and> toValue strconvAtZero (NByteSlice [1, 2, 3]) = Inr (newBase64 [1, 2, 3])"
  by (simp add: preparePayload_toValues)







section \<open>The loops of the decoder\<close>





lemma parseArrayLoop_wellformed:
  "list_all2 (\<lambda>v r. valueResult lib v = Some r) vs rs
     \<Longrightarrow> parseArrayLoop lib vs results = Inr (results @ rs)"
proof (induction vs rs arbitrary: results rule: list_all2_induct)
  case Nil
  show ?case by simp
next
  case (Cons v vs r rs)
  from Cons.hyps(1) obtain c where "ChildElements v = [c]" "parseElement lib c = Inr r"
    by (auto simp: valueResult_def split: list.splits sum.splits)
  then show ?case using Cons.IH [of "results @ [r]"] by simp
qed





lemmas decode_eval =
  parseElement.simps parseArray.simps parseStruct.simps parseValue_def
  Atoi_def isDigit_def digitsVal_def digitVal_def ParseBool_def
  intResult_def stringResult_def boolResult_def arrayResult_def structResult_def
  valueResult_def memberResult_def memberName_def malformed_def arrayOf_def

lemma FindElements_arrayValuePath:
  "FindElements arrayValuePath e =
     concat (map (selectChildren ''value'') (selectChildren ''data'' e))"
  by (simp add: FindElements_def arrayValuePath_def)

lemma FindElements_structMemberPath:
  "FindElements structMemberPath e = selectChildren ''member'' e"
  by (simp add: FindElements_def structMemberPath_def)

lemma no_values_iff:
  "(FindElements arrayValuePath e = []) =
     (\<forall>d \<in> set (ChildElements e). Tag d = ''data'' \<longrightarrow>
        (\<forall>v \<in> set (ChildElements d). Tag v \<noteq> ''value''))"
  by (auto simp: FindElements_arrayValuePath selectChildren_def filter_empty_conv)

section \<open>Arrays\<close>

text \<open>
  Claim C3. A sequence here is an array or slice that \<open>toValue\<close> hands to
  \<open>constructArray\<close>, its element kind not being \<open>uint8\<close>. The empty sequence converts to
  an \<open>array\<close> element whose \<open>data\<close> child holds no value, and that element does not decode:
  \<open>parseArray\<close> returns the empty-array error for every element under whose \<open>data\<close>
  children the path \<open>data/value\<close> finds nothing. When the path finds one value or more,
  each with a single child that decodes, \<open>parseArray\<close> returns the decoded values in the
  order of the value elements.
\<close>
theorem array_emptiness:
  "toValue lib (NSeq st []) = Inr (Element ''array'' [] [Element ''data'' [] []])
   \<and> FindElements arrayValuePath (Element ''array'' [] [Element ''data'' [] []]) = []
   \<and> parseElement lib (Element ''array'' [] [Element ''data'' [] []])
       = Inl EmptyArrayNotAllowed
   \<and> ((FindElements arrayValuePath e = []) =
        (\<forall>d \<in> set (ChildElements e). Tag d = ''data'' \<longrightarrow>
           (\<forall>v \<in> set (ChildElements d). Tag v \<noteq> ''value'')))
   \<and> (FindElements arrayValuePath e = [] \<longrightarrow>
        parseArray lib e = Inl EmptyArrayNotAllowed
        \<and> (Tag e = ''array'' \<longrightarrow> parseElement lib e = Inl EmptyArrayNotAllowed))
   \<and> (FindElements arrayValuePath e \<noteq> [] \<and>
        list_all2 (\<lambda>v r. valueResult lib v = Some r) (FindElements arrayValuePath e) rs \<longrightarrow>
        parseArray lib e = Inr rs
        \<and> (Tag e = ''array'' \<longrightarrow> parseElement lib e = Inr (arrayResult rs)))"
proof -
  have conv: "toValue lib (NSeq st []) = Inr (Element ''array'' [] [Element ''data'' [] []])"
    by (simp add: constructArray_toValues arrayOf_def enArray_def enData_def)
  have none: "FindElements arrayValuePath (Element ''array'' [] [Element ''data'' [] []]) = []"
    by (simp add: FindElements_arrayValuePath selectChildren_def)
  have empty: "parseArray lib a = Inl EmptyArrayNotAllowed"
    if "FindElements arrayValuePath a = []" for a
    using that by (simp add: parseArray.simps)
  have emptyE: "parseElement lib a = Inl EmptyArrayNotAllowed"
    if "FindElements arrayValuePath a = []" "Tag a = ''array''" for a
    using that empty [of a] by (simp add: parseElement.simps)
  have full: "parseArray lib e = Inr rs"
    if ne: "FindElements arrayValuePath e \<noteq> []"
      and wf: "list_all2 (\<lambda>v r. valueResult lib v = Some r) (FindElements arrayValuePath e) rs"
  proof -
    have "rs \<noteq> []" using ne wf by (auto simp: list_all2_Nil2)
    moreover have "parseArrayLoop lib (FindElements arrayValuePath e) [] = Inr rs"
      using parseArrayLoop_wellformed [OF wf, of "[]"] by simp
    ultimately show ?thesis by (simp add: parseArray.simps)
  qed
  have fullE: "parseElement lib e = Inr (arrayResult rs)"
    if "FindElements arrayValuePath e \<noteq> []"
      "list_all2 (\<lambda>v r. valueResult lib v = Some r) (FindElements arrayValuePath e) rs"
      "Tag e = ''array''"
    using that full by (simp add: parseElement.simps)
  show ?thesis
    using conv none emptyE [OF none] no_values_iff [of e] empty [of e] emptyE [of e] full fullE
    by simp
qed

text \<open>
  An array with no \<open>data\<close> child at all, and the array of the values \<open>7\<close> and \<open>x\<close> in
  this order.
\<close>
theorem array_emptiness_witness:
  "parseElement strconvAtZero (Element ''array'' [] []) = Inl EmptyArrayNotAllowed
   \<and> parseElement strconvAtZero
         (arrayOf [wrapToValue (newScalar ''int'' ''7''), wrapToValue (newString ''x'')])
       = Inr (arrayResult [intResult 7, stringResult ''x''])"
  using array_emptiness [of strconvAtZero TSlice "Element ''array'' [] []" "[]"]
    array_emptiness [of strconvAtZero TSlice
      "arrayOf [wrapToValue (newScalar ''int'' ''7''), wrapToValue (newString ''x'')]"
      "[intResult 7, stringResult ''x'']"]
  by (simp add: decode_eval tree_eval)

section \<open>Value elements without exactly one child\<close>




section \<open>Structures\<close>




section \<open>The results of decoding\<close>

lemmas result_eval =
  Kind_def ResultString_def ResultInt_def ResultBoolean_def ResultDouble_def
  ResultDateTime_def ResultBase64_def ResultStruct_def ResultArray_def
  stringResult_def intResult_def boolResult_def doubleResult_def dateTimeResult_def
  base64Result_def arrayResult_def structResult_def

lemma scalar_results:
  "exactlyOneKind (stringResult s)" "exactlyOneKind (intResult i)"
  "exactlyOneKind (boolResult b)" "exactlyOneKind (doubleResult d)"
  "exactlyOneKind (dateTimeResult t)" "exactlyOneKind (base64Result bs)"
  by (rule exactlyOneKind.intros; simp add: othersZero_def result_eval)+

lemma array_result:
  "\<forall>r \<in> set rs. exactlyOneKind r \<Longrightarrow> exactlyOneKind (arrayResult rs)"
  by (rule exactlyOneKind.intros; simp add: othersZero_def result_eval)

lemma struct_result:
  "\<forall>key r. m key = Some r \<longrightarrow> exactlyOneKind r \<Longrightarrow> exactlyOneKind (structResult m)"
  by (rule exactlyOneKind.intros; simp add: othersZero_def result_eval)

lemma parseFault_Inl: "parseFault f \<noteq> Inr r"
  by (simp add: parseFault_def Let_def split: prod.splits option.splits)

lemma parseElement_Inr:
  assumes "parseElement lib e = Inr r"
  shows "(\<exists>s. r = stringResult s) \<or> (\<exists>i. r = intResult i) \<or> (\<exists>b. r = boolResult b)
     \<or> (\<exists>d. r = doubleResult d) \<or> (\<exists>t. r = dateTimeResult t) \<or> (\<exists>bs. r = base64Result bs)
     \<or> (Tag e = ''array'' \<and> (\<exists>rs. parseArray lib e = Inr rs \<and> r = arrayResult rs))
     \<or> (Tag e = ''struct'' \<and> (\<exists>m. parseStruct lib e = Inr m \<and> r = structResult m))"
proof -
  note eq = parseElement.simps [of lib e]
  show ?thesis
  proof (cases "Tag e = ''string''")
    case True
    with assms eq show ?thesis by auto
  next
    case f1: False
    show ?thesis
    proof (cases "Tag e = ''int'' \<or> Tag e = ''i4''")
      case True
      with assms eq f1 show ?thesis by (auto split: option.splits)
    next
      case f2: False
      show ?thesis
      proof (cases "Tag e = ''boolean''")
        case True
        with assms eq show ?thesis by (auto split: option.splits)
      next
        case f3: False
        show ?thesis
        proof (cases "Tag e = ''double''")
          case True
          with assms eq show ?thesis by (auto split: option.splits)
        next
          case f4: False
          show ?thesis
          proof (cases "Tag e = ''dateTime.iso8601''")
            case True
            with assms eq show ?thesis by (auto split: option.splits)
          next
            case f5: False
            show ?thesis
            proof (cases "Tag e = ''base64''")
              case True
              with assms eq show ?thesis by (auto split: option.splits)
            next
              case f6: False
              show ?thesis
              proof (cases "Tag e = ''array''")
                case True
                with assms eq show ?thesis by (auto split: sum.splits)
              next
                case f7: False
                show ?thesis
                proof (cases "Tag e = ''struct''")
                  case True
                  with assms eq show ?thesis by (auto split: sum.splits)
                next
                  case False
                  with assms eq f1 f2 f3 f4 f5 f6 f7 show ?thesis by simp
                qed
              qed
            qed
          qed
        qed
      qed
    qed
  qed
qed

lemma decoded_results:
  "parseElement lib e = Inr r \<Longrightarrow> exactlyOneKind r"
  "parseArray lib e = Inr rs \<Longrightarrow> \<forall>x \<in> set rs. exactlyOneKind x"
  "parseArrayLoop lib es acc = Inr rs \<Longrightarrow> \<forall>x \<in> set acc. exactlyOneKind x
     \<Longrightarrow> \<forall>x \<in> set rs. exactlyOneKind x"
  "parseStruct lib e = Inr m \<Longrightarrow> \<forall>key x. m key = Some x \<longrightarrow> exactlyOneKind x"
  "parseStructLoop lib ms results = Inr m \<Longrightarrow> \<forall>key x. results key = Some x \<longrightarrow> exactlyOneKind x
     \<Longrightarrow> \<forall>key x. m key = Some x \<longrightarrow> exactlyOneKind x"
proof (induction lib e and lib e and lib es acc and lib e and lib ms results
    arbitrary: r and rs and rs and m and m
    rule: parseElement_parseArray_parseArrayLoop_parseStruct_parseStructLoop.induct)
  case (1 lib e)
  from parseElement_Inr [OF 1(3)] show ?case
  proof (elim disjE exE conjE)
    fix s assume "r = stringResult s"
    then show ?thesis by (simp add: scalar_results)
  next
    fix i assume "r = intResult i"
    then show ?thesis by (simp add: scalar_results)
  next
    fix b assume "r = boolResult b"
    then show ?thesis by (simp add: scalar_results)
  next
    fix d assume "r = doubleResult d"
    then show ?thesis by (simp add: scalar_results)
  next
    fix t assume "r = dateTimeResult t"
    then show ?thesis by (simp add: scalar_results)
  next
    fix bs assume "r = base64Result bs"
    then show ?thesis by (simp add: scalar_results)
  next
    fix rs assume tag: "Tag e = ''array''" and rs: "parseArray lib e = Inr rs"
      and r: "r = arrayResult rs"
    have "\<forall>x \<in> set rs. exactlyOneKind x"
      by (rule 1(1)) (simp_all add: tag rs)
    then show ?thesis unfolding r by (rule array_result)
  next
    fix m assume tag: "Tag e = ''struct''" and m: "parseStruct lib e = Inr m"
      and r: "r = structResult m"
    have "\<forall>key x. m key = Some x \<longrightarrow> exactlyOneKind x"
      by (rule 1(2)) (simp_all add: tag m)
    then show ?thesis unfolding r by (rule struct_result)
  qed
next
  case (2 lib e)
  from 2(2) have "parseArrayLoop lib (FindElements arrayValuePath e) [] = Inr rs"
    by (subst (asm) parseArray.simps) (simp split: sum.splits if_splits)
  then show ?case by (rule 2(1)) simp
next
  case (3 lib results)
  then show ?case by simp
next
  case (4 lib element rest results)
  from 4(3) obtain c v where parts: "ChildElements element = [c]" "parseElement lib c = Inr v"
    "parseArrayLoop lib rest (results @ [v]) = Inr rs"
    by (simp split: list.splits sum.splits)
  have "exactlyOneKind v" by (rule 4(1) [OF parts(1) refl parts(2)])
  with 4(4) have inv: "\<forall>x \<in> set (results @ [v]). exactlyOneKind x" by simp
  show ?case by (rule 4(2) [OF parts(1) refl parts(2) parts(3) inv])
next
  case (5 lib e)
  from 5(2) have "parseStructLoop lib (FindElements structMemberPath e) Map.empty = Inr m"
    by (subst (asm) parseStruct.simps) (simp split: sum.splits if_splits)
  then show ?case by (rule 5(1)) simp
next
  case (6 lib results)
  then show ?case by simp
next
  case (7 lib member rest results)
  from 7(3) obtain n v c ret where parts:
    "FindElement structMemberNameTag member = Some n"
    "FindElement structMemberValueTag member = Some v"
    "results (Text n) = None" "ChildElements v = [c]" "parseElement lib c = Inr ret"
    and rest0: "parseStructLoop lib rest (\<lambda>a. if a = Text n then Some ret else results a)
        = Inr m"
    by (auto simp: fun_upd_def split: option.splits list.splits sum.splits if_splits)
  have upd: "(\<lambda>a. if a = Text n then Some ret else results a) = results(Text n \<mapsto> ret)"
    by (simp add: fun_upd_def)
  have rest: "parseStructLoop lib rest (results(Text n \<mapsto> ret)) = Inr m"
    using rest0 unfolding upd .
  have nn: "\<not> results (Text n) \<noteq> None" using parts(3) by simp
  have "exactlyOneKind ret" by (rule 7(1) [OF parts(1) parts(2) nn parts(4) refl parts(5)])
  with 7(4) have inv: "\<forall>key x. (results(Text n \<mapsto> ret)) key = Some x \<longrightarrow> exactlyOneKind x"
    by simp
  show ?case by (rule 7(2) [OF parts(1) parts(2) nn parts(4) refl parts(5) rest inv])
qed

text \<open>
  Claim C9. Every \<open>Result\<close> that decoding returns, from \<open>parseElement\<close> as from
  \<open>parseResponse\<close>, has a kind other than the invalid one, and each accessor that does
  not match \<open>Kind()\<close> returns the zero value of its type: the empty string, \<open>0\<close>, \<open>false\<close>,
  the zero time, the nil slice, the nil map. The same holds for every \<open>Result\<close> held in its
  array or its map, at every depth. The accessors return a value and nothing else, so
  none of them returns an error.
\<close>
theorem decoded_exactly_one_kind:
  "(parseElement lib e = Inr r \<longrightarrow> exactlyOneKind r)
   \<and> (parseResponse lib doc = Inr r \<longrightarrow> exactlyOneKind r)
   \<and> (exactlyOneKind r \<longrightarrow>
        Kind r \<noteq> KindInvalid
        \<and> (Kind r \<noteq> KindString \<longrightarrow> ResultString r = [])
        \<and> (Kind r \<noteq> KindInt \<longrightarrow> ResultInt r = 0)
        \<and> (Kind r \<noteq> KindBool \<longrightarrow> ResultBoolean r = False)
        \<and> (Kind r \<noteq> KindDouble \<longrightarrow> ResultDouble r = 0)
        \<and> (Kind r \<noteq> KindDateTime \<longrightarrow> ResultDateTime r = zeroTime)
        \<and> (Kind r \<noteq> KindBase64 \<longrightarrow> ResultBase64 r = [])
        \<and> (Kind r \<noteq> KindStruct \<longrightarrow> ResultStruct r = Map.empty)
        \<and> (Kind r \<noteq> KindArray \<longrightarrow> ResultArray r = [])
        \<and> (\<forall>x \<in> set (ResultArray r). exactlyOneKind x)
        \<and> (\<forall>key x. ResultStruct r key = Some x \<longrightarrow> exactlyOneKind x))"
proof -
  have a: "parseElement lib e = Inr r \<longrightarrow> exactlyOneKind r"
    using decoded_results(1) by blast
  have b: "parseResponse lib doc = Inr r \<longrightarrow> exactlyOneKind r"
  proof
    assume ok: "parseResponse lib doc = Inr r"
    then obtain v where "parseValue lib v = Inr r"
      using parseFault_Inl
      by (auto simp: parseResponse_def Let_def split: option.splits if_splits)
    then obtain c where "parseElement lib c = Inr r"
      by (auto simp: parseValue_def split: list.splits)
    then show "exactlyOneKind r" using decoded_results(1) by blast
  qed
  have c: "exactlyOneKind r \<longrightarrow> othersZero r \<and> (\<forall>x \<in> set (ResultArray r). exactlyOneKind x)
        \<and> (\<forall>key x. ResultStruct r key = Some x \<longrightarrow> exactlyOneKind x)"
  proof
    assume "exactlyOneKind r"
    then show "othersZero r \<and> (\<forall>x \<in> set (ResultArray r). exactlyOneKind x)
        \<and> (\<forall>key x. ResultStruct r key = Some x \<longrightarrow> exactlyOneKind x)"
      by (rule exactlyOneKind.cases) simp
  qed
  have d: "exactlyOneKind r \<longrightarrow>
        Kind r \<noteq> KindInvalid
        \<and> (Kind r \<noteq> KindString \<longrightarrow> ResultString r = [])
        \<and> (Kind r \<noteq> KindInt \<longrightarrow> ResultInt r = 0)
        \<and> (Kind r \<noteq> KindBool \<longrightarrow> ResultBoolean r = False)
        \<and> (Kind r \<noteq> KindDouble \<longrightarrow> ResultDouble r = 0)
        \<and> (Kind r \<noteq> KindDateTime \<longrightarrow> ResultDateTime r = zeroTime)
        \<and> (Kind r \<noteq> KindBase64 \<longrightarrow> ResultBase64 r = [])
        \<and> (Kind r \<noteq> KindStruct \<longrightarrow> ResultStruct r = Map.empty)
        \<and> (Kind r \<noteq> KindArray \<longrightarrow> ResultArray r = [])
        \<and> (\<forall>x \<in> set (ResultArray r). exactlyOneKind x)
        \<and> (\<forall>key x. ResultStruct r key = Some x \<longrightarrow> exactlyOneKind x)"
    using c unfolding othersZero_def conj_assoc .
  from a b d show ?thesis by (intro conjI)
qed

text \<open>
  The array of the integer \<open>7\<close> and a structure: each result has its own field and no
  other, and so have the results inside.
\<close>
theorem decoded_exactly_one_kind_witness:
  "parseElement strconvAtZero
       (arrayOf [wrapToValue (newScalar ''int'' ''7''),
                 wrapToValue (Element ''struct'' [] [newMember ''a'' (newString ''x'')])])
     = Inr (arrayResult [intResult 7, structResult (map_of [(''a'', stringResult ''x'')])])
   \<and> exactlyOneKind
       (arrayResult [intResult 7, structResult (map_of [(''a'', stringResult ''x'')])])
   \<and> ResultInt (arrayResult [intResult 7, structResult (map_of [(''a'', stringResult ''x'')])])
     = 0
   \<and> ResultString (intResult 7) = []
   \<and> exactlyOneKind (intResult 7)"
proof -
  let ?e = "arrayOf [wrapToValue (newScalar ''int'' ''7''),
                 wrapToValue (Element ''struct'' [] [newMember ''a'' (newString ''x'')])]"
  let ?r = "arrayResult [intResult 7, structResult (map_of [(''a'', stringResult ''x'')])]"
  have ev: "parseElement strconvAtZero ?e = Inr ?r"
    by (simp add: decode_eval tree_eval FindElements_arrayValuePath
        FindElements_structMemberPath)
  have "parseElement strconvAtZero ?e = Inr ?r \<longrightarrow> exactlyOneKind ?r"
    using decoded_exactly_one_kind [of strconvAtZero ?e ?r "Element [] [] []"]
    by (rule conjunct1)
  then have ok: "exactlyOneKind ?r" using ev by (rule mp)
  have zero: "ResultInt ?r = 0" "ResultString (intResult 7) = []"
    by (simp_all add: ResultInt_def ResultString_def arrayResult_def intResult_def)
  from ev ok zero scalar_results(2) [of 7] show ?thesis by (intro conjI)
qed

end
